theory Spec2Isabelle
  imports Complex_Main
begin

section \<open>Values, errors and the repository host\<close>

text \<open>
  The two command-line programs of the repository, \<^verbatim>\<open>src/GithubManagement.ts\<close> (the
  manifest flow) and \<^verbatim>\<open>src/unnamed/part_000\<close> (the interactive flow), are embedded as
  functions over an explicit world: the sequence of requests sent to the host through
  Octokit, the lines printed with \<^verbatim>\<open>console.log\<close> and \<^verbatim>\<open>console.error\<close>, and the lines
  still waiting on standard input.
\<close>

subsection \<open>Strings\<close>

text \<open>
  \<^verbatim>\<open>String.prototype.toLowerCase\<close>, on strings of ASCII characters: the letters
  \<^verbatim>\<open>A\<close> to \<^verbatim>\<open>Z\<close> (codes 65 to 90) move to \<^verbatim>\<open>a\<close> to \<^verbatim>\<open>z\<close>, everything
  else stays. A host login is made of ASCII letters, digits and hyphens.
\<close>

definition toLowerCase_char :: "char \<Rightarrow> char" where
  "toLowerCase_char c =
     (let n = (of_char c :: nat) in if 65 \<le> n \<and> n \<le> 90 then char_of (n + 32) else c)"

definition toLowerCase :: "string \<Rightarrow> string" where
  "toLowerCase s = map toLowerCase_char s"

text \<open>
  The data model's equality of identities: two identities are equal if their lowercase
  forms match.
\<close>

definition same_identity :: "string \<Rightarrow> string \<Rightarrow> bool" where
  "same_identity a b = (toLowerCase a = toLowerCase b)"

subsection \<open>Values read from the manifest\<close>

text \<open>
  What \<^verbatim>\<open>JSON.parse\<close> returns. The manifest is untyped at run time (\<^verbatim>\<open>teamData\<close> is
  \<^verbatim>\<open>any\<close>), so the driver can meet every shape. \<open>JUndefined\<close> is the value of a property
  that is absent. A number is carried as a rational; the driver only ever tests one for
  truthiness, and zero is the falsy number.
\<close>

datatype jsval =
    JUndefined
  | JNull
  | JBool bool
  | JNum rat
  | JStr string
  | JArr "jsval list"
  | JObj "(string \<times> jsval) list"

fun truthy :: "jsval \<Rightarrow> bool" where
  "truthy JUndefined = False"
| "truthy JNull = False"
| "truthy (JBool b) = b"
| "truthy (JNum n) = (n \<noteq> 0)"
| "truthy (JStr s) = (s \<noteq> [])"
| "truthy (JArr xs) = True"
| "truthy (JObj kvs) = True"

datatype error =
    RequestError nat
  | TypeError
  | Error string

text \<open>The \<^verbatim>\<open>status\<close> property of a thrown value: only a request error carries one.\<close>

fun status :: "error \<Rightarrow> nat option" where
  "status (RequestError s) = Some s"
| "status TypeError = None"
| "status (Error m) = None"

text \<open>
  Reading the property \<^verbatim>\<open>k\<close> of a parsed value that is not \<^verbatim>\<open>null\<close>, for the two
  names the driver reads (\<^verbatim>\<open>teamName\<close> and \<^verbatim>\<open>collaborators\<close>): only an object can
  have them.
\<close>

fun property :: "jsval \<Rightarrow> string \<Rightarrow> jsval" where
  "property (JObj kvs) k = (case map_of kvs k of Some v \<Rightarrow> v | None \<Rightarrow> JUndefined)"
| "property v k = JUndefined"

text \<open>\<^verbatim>\<open>Array.isArray\<close>, and the elements of an array.\<close>

fun isArray :: "jsval \<Rightarrow> bool" where
  "isArray (JArr xs) = True"
| "isArray v = False"

fun elements :: "jsval \<Rightarrow> jsval list" where
  "elements (JArr xs) = xs"
| "elements v = []"

text \<open>\<^verbatim>\<open>const { teamName, collaborators } = teamData\<close>: destructuring \<^verbatim>\<open>null\<close> throws.\<close>

fun destructure :: "jsval \<Rightarrow> error + jsval \<times> jsval" where
  "destructure JNull = Inl TypeError"
| "destructure JUndefined = Inl TypeError"
| "destructure v = Inr (property v ''teamName'', property v ''collaborators'')"

text \<open>
  \<^verbatim>\<open>collab.toLowerCase()\<close> on an element of the manifest's array: a value that is not a
  string has no such method, and the call throws.
\<close>

fun toLowerCase_js :: "jsval \<Rightarrow> error + string" where
  "toLowerCase_js (JStr s) = Inr (toLowerCase s)"
| "toLowerCase_js v = Inl TypeError"

text \<open>\<^verbatim>\<open>collaborators.map(collab => collab.toLowerCase())\<close>, stopping at the first throw.\<close>

fun map_toLowerCase :: "jsval list \<Rightarrow> error + string list" where
  "map_toLowerCase [] = Inr []"
| "map_toLowerCase (v # vs) =
     (case toLowerCase_js v of
        Inl e \<Rightarrow> Inl e
      | Inr s \<Rightarrow> (case map_toLowerCase vs of Inl e \<Rightarrow> Inl e | Inr ss \<Rightarrow> Inr (s # ss)))"

text \<open>\<^verbatim>\<open>Array.prototype.includes\<close> on an array of strings.\<close>

fun array_includes :: "string list \<Rightarrow> string \<Rightarrow> bool" where
  "array_includes [] x = False"
| "array_includes (y # ys) x = (y = x \<or> array_includes ys x)"

subsection \<open>The host\<close>

text \<open>The requests the two programs send through Octokit, with their arguments.\<close>

datatype call =
    UsersGetAuthenticated
  | ReposGet string jsval
  | ReposCreateForAuthenticatedUser jsval bool
  | ReposDelete string jsval
  | ReposAddCollaborator string jsval jsval string
  | ReposRemoveCollaborator string jsval jsval
  | ReposListCollaborators string jsval

text \<open>
  The host is outside the repository. It is a parameter: for each request it answers
  with a rejection or with the data the program reads from the response, and its answer
  may depend on every request sent before (the first argument).
\<close>

record host =
  users_getAuthenticated :: "call list \<Rightarrow> error + string"
  repos_get :: "call list \<Rightarrow> string \<Rightarrow> jsval \<Rightarrow> error + unit"
  repos_createForAuthenticatedUser :: "call list \<Rightarrow> jsval \<Rightarrow> bool \<Rightarrow> error + string"
  repos_delete :: "call list \<Rightarrow> string \<Rightarrow> jsval \<Rightarrow> error + unit"
  repos_addCollaborator :: "call list \<Rightarrow> string \<Rightarrow> jsval \<Rightarrow> jsval \<Rightarrow> error + unit"
  repos_removeCollaborator :: "call list \<Rightarrow> string \<Rightarrow> jsval \<Rightarrow> jsval \<Rightarrow> error + unit"
  repos_listCollaborators :: "call list \<Rightarrow> string \<Rightarrow> jsval \<Rightarrow> error + string list"

subsection \<open>The console and the world\<close>

datatype msg =
    AuthenticatedAs string
  | ErrorFetchingAuthenticatedUsername error
  | ErrorCheckingRepositoryExistence error
  | RepositoryCreated string
  | ErrorCreatingRepository error
  | RepositoryDeleted string jsval
  | ErrorDeletingRepository error
  | UserAdded jsval string jsval
  | ErrorAddingUser jsval error
  | ErrorAddingUserToRepository error
  | UserRemoved jsval string jsval
  | ErrorRemovingUser jsval error
  | ErrorRemovingUserFromRepository error
  | ErrorListingCollaborators error
  | ErrorReadingOrParsingJsonFile error
  | InvalidJsonFormat
  | RepositoryExistsUpdating jsval
  | CollaboratorsUpdated
  | RepositoryDoesNotExistCreating jsval
  | RepositoryCreatedAndCollaboratorsAdded
  | RepositoryDeletionCanceled
  | InvalidAction
  | InvalidOption
  | ProgramCompleted

datatype stream = Stdout | Stderr

record world =
  trace :: "call list"
  console :: "(stream \<times> msg) list"
  stdin :: "string list"

definition start :: "string list \<Rightarrow> world" where
  "start input = \<lparr>trace = [], console = [], stdin = input\<rparr>"

definition request :: "call \<Rightarrow> world \<Rightarrow> world" where
  "request c w = w\<lparr>trace := trace w @ [c]\<rparr>"

definition console_log :: "msg \<Rightarrow> world \<Rightarrow> world" where
  "console_log m w = w\<lparr>console := console w @ [(Stdout, m)]\<rparr>"

definition console_error :: "msg \<Rightarrow> world \<Rightarrow> world" where
  "console_error m w = w\<lparr>console := console w @ [(Stderr, m)]\<rparr>"

text \<open>
  \<^verbatim>\<open>prompt\<close> and \<^verbatim>\<open>promptFilePath\<close>: the next line of standard input. When the input
  has ended the promise never resolves (\<open>None\<close>).
\<close>

definition prompt :: "world \<Rightarrow> (string \<times> world) option" where
  "prompt w = (case stdin w of [] \<Rightarrow> None | l # ls \<Rightarrow> Some (l, w\<lparr>stdin := ls\<rparr>))"

text \<open>How a run of a program's main function ends.\<close>

datatype outcome =
    Completed
  | Returned
  | Rejected error
  | Pending

section \<open>The class GitHubManager\<close>

text \<open>The constructor: \<^verbatim>\<open>if (!token) throw\<close>, for a token that is absent or empty.\<close>

definition GitHubManager :: "string option \<Rightarrow> error + unit" where
  "GitHubManager token =
     (case token of
        None \<Rightarrow> Inl (Error ''GitHub token not found. Please add it to the .env file.'')
      | Some t \<Rightarrow>
          if t = [] then Inl (Error ''GitHub token not found. Please add it to the .env file.'')
          else Inr ())"

definition getAuthenticatedUsername :: "host \<Rightarrow> world \<Rightarrow> (error + string) \<times> world" where
  "getAuthenticatedUsername h w =
     (case users_getAuthenticated h (trace w) of
        Inr login \<Rightarrow> (Inr login, request UsersGetAuthenticated w)
      | Inl e \<Rightarrow>
          (Inl e, console_error (ErrorFetchingAuthenticatedUsername e)
                    (request UsersGetAuthenticated w)))"

definition repositoryExists :: "host \<Rightarrow> string \<Rightarrow> jsval \<Rightarrow> world \<Rightarrow> (error + bool) \<times> world" where
  "repositoryExists h owner repoName w =
     (case repos_get h (trace w) owner repoName of
        Inr u \<Rightarrow> (Inr True, request (ReposGet owner repoName) w)
      | Inl e \<Rightarrow>
          if status e = Some 404 then (Inr False, request (ReposGet owner repoName) w)
          else (Inl e, console_error (ErrorCheckingRepositoryExistence e)
                         (request (ReposGet owner repoName) w)))"

definition createRepository :: "host \<Rightarrow> jsval \<Rightarrow> bool \<Rightarrow> world \<Rightarrow> world" where
  "createRepository h repoName isPrivate w =
     (case repos_createForAuthenticatedUser h (trace w) repoName isPrivate of
        Inr html_url \<Rightarrow>
          console_log (RepositoryCreated html_url)
            (request (ReposCreateForAuthenticatedUser repoName isPrivate) w)
      | Inl e \<Rightarrow>
          console_error (ErrorCreatingRepository e)
            (request (ReposCreateForAuthenticatedUser repoName isPrivate) w))"

definition addUserToRepository :: "host \<Rightarrow> string \<Rightarrow> jsval \<Rightarrow> jsval \<Rightarrow> world \<Rightarrow> world" where
  "addUserToRepository h owner repoName username w =
     (case repos_addCollaborator h (trace w) owner repoName username of
        Inr u \<Rightarrow>
          console_log (UserAdded username owner repoName)
            (request (ReposAddCollaborator owner repoName username ''push'') w)
      | Inl e \<Rightarrow>
          console_error (ErrorAddingUser username e)
            (request (ReposAddCollaborator owner repoName username ''push'') w))"

definition removeUserFromRepository :: "host \<Rightarrow> string \<Rightarrow> jsval \<Rightarrow> jsval \<Rightarrow> world \<Rightarrow> world" where
  "removeUserFromRepository h owner repoName username w =
     (case repos_removeCollaborator h (trace w) owner repoName username of
        Inr u \<Rightarrow>
          console_log (UserRemoved username owner repoName)
            (request (ReposRemoveCollaborator owner repoName username) w)
      | Inl e \<Rightarrow>
          console_error (ErrorRemovingUser username e)
            (request (ReposRemoveCollaborator owner repoName username) w))"

definition listCollaborators :: "host \<Rightarrow> string \<Rightarrow> jsval \<Rightarrow> world \<Rightarrow> (error + string list) \<times> world" where
  "listCollaborators h owner repoName w =
     (case repos_listCollaborators h (trace w) owner repoName of
        Inr logins \<Rightarrow> (Inr logins, request (ReposListCollaborators owner repoName) w)
      | Inl e \<Rightarrow>
          (Inl e, console_error (ErrorListingCollaborators e)
                    (request (ReposListCollaborators owner repoName) w)))"

section \<open>The manifest flow\<close>

subsection \<open>Reconciliation\<close>

text \<open>
  The two filters of the update branch, over the lowercase lists
  \<^verbatim>\<open>normalizedCollaborators\<close> and \<^verbatim>\<open>normalizedCurrentCollaborators\<close> and the lowercase
  owner \<^verbatim>\<open>normalizedUsername\<close>.
\<close>

definition collaboratorsToAdd :: "string list \<Rightarrow> string list \<Rightarrow> string list" where
  "collaboratorsToAdd normalizedCollaborators normalizedCurrentCollaborators =
     filter (\<lambda>collab. \<not> array_includes normalizedCurrentCollaborators collab) normalizedCollaborators"

definition collaboratorsToRemove :: "string list \<Rightarrow> string list \<Rightarrow> string \<Rightarrow> string list" where
  "collaboratorsToRemove normalizedCollaborators normalizedCurrentCollaborators normalizedUsername =
     filter (\<lambda>collab. \<not> array_includes normalizedCollaborators collab \<and> collab \<noteq> normalizedUsername)
       normalizedCurrentCollaborators"

text \<open>
  The normalisation and the two filters together, on a desired list, a current list and
  an owner: the pair \<open>(toAdd, toRemove)\<close>.
\<close>

definition reconcile :: "string list \<Rightarrow> string list \<Rightarrow> string \<Rightarrow> string list \<times> string list" where
  "reconcile desired current owner =
     (let normalizedCurrentCollaborators = map toLowerCase current;
          normalizedCollaborators = map toLowerCase desired;
          normalizedUsername = toLowerCase owner
      in (collaboratorsToAdd normalizedCollaborators normalizedCurrentCollaborators,
          collaboratorsToRemove normalizedCollaborators normalizedCurrentCollaborators
            normalizedUsername))"

subsection \<open>The driver\<close>

text \<open>The two \<^verbatim>\<open>for ... of\<close> loops over the adds and the removes.\<close>

definition add_each :: "host \<Rightarrow> string \<Rightarrow> jsval \<Rightarrow> jsval list \<Rightarrow> world \<Rightarrow> world" where
  "add_each h username teamName collabs w =
     foldl (\<lambda>w collab. addUserToRepository h username teamName collab w) w collabs"

definition remove_each :: "host \<Rightarrow> string \<Rightarrow> jsval \<Rightarrow> jsval list \<Rightarrow> world \<Rightarrow> world" where
  "remove_each h username teamName collabs w =
     foldl (\<lambda>w collab. removeUserFromRepository h username teamName collab w) w collabs"

text \<open>The branch \<^verbatim>\<open>if (repoExists)\<close>.\<close>

definition main_update :: "host \<Rightarrow> string \<Rightarrow> jsval \<Rightarrow> jsval list \<Rightarrow> world \<Rightarrow> outcome \<times> world" where
  "main_update h username teamName collaborators w =
     (case listCollaborators h username teamName (console_log (RepositoryExistsUpdating teamName) w) of
        (Inl e, w1) \<Rightarrow> (Rejected e, w1)
      | (Inr currentCollaborators, w1) \<Rightarrow>
          (let normalizedCurrentCollaborators = map toLowerCase currentCollaborators in
           case map_toLowerCase collaborators of
             Inl e \<Rightarrow> (Rejected e, w1)
           | Inr normalizedCollaborators \<Rightarrow>
               (let normalizedUsername = toLowerCase username;
                    toAdd = collaboratorsToAdd normalizedCollaborators normalizedCurrentCollaborators;
                    toRemove = collaboratorsToRemove normalizedCollaborators
                                 normalizedCurrentCollaborators normalizedUsername;
                    w2 = add_each h username teamName (map JStr toAdd) w1;
                    w3 = remove_each h username teamName (map JStr toRemove) w2
                in (Completed, console_log ProgramCompleted (console_log CollaboratorsUpdated w3)))))"

text \<open>The branch \<^verbatim>\<open>else\<close>: the repository is created and every entry is added as it is.\<close>

definition main_create :: "host \<Rightarrow> string \<Rightarrow> jsval \<Rightarrow> jsval list \<Rightarrow> world \<Rightarrow> outcome \<times> world" where
  "main_create h username teamName collaborators w =
     (let w1 = createRepository h teamName True
                 (console_log (RepositoryDoesNotExistCreating teamName) w);
          w2 = add_each h username teamName collaborators w1
      in (Completed,
          console_log ProgramCompleted (console_log RepositoryCreatedAndCollaboratorsAdded w2)))"

text \<open>From the existence check on.\<close>

definition main_sync :: "host \<Rightarrow> string \<Rightarrow> jsval \<Rightarrow> jsval list \<Rightarrow> world \<Rightarrow> outcome \<times> world" where
  "main_sync h username teamName collaborators w =
     (case repositoryExists h username teamName w of
        (Inl e, w1) \<Rightarrow> (Rejected e, w1)
      | (Inr repoExists, w1) \<Rightarrow>
          if repoExists then main_update h username teamName collaborators w1
          else main_create h username teamName collaborators w1)"

text \<open>
  From the parsed manifest on: the destructuring and the check
  \<^verbatim>\<open>!teamName || !Array.isArray(collaborators)\<close>.
\<close>

definition main_manifest :: "host \<Rightarrow> string \<Rightarrow> jsval \<Rightarrow> world \<Rightarrow> outcome \<times> world" where
  "main_manifest h username teamData w =
     (case destructure teamData of
        Inl e \<Rightarrow> (Rejected e, w)
      | Inr (teamName, collaborators) \<Rightarrow>
          if \<not> truthy teamName \<or> \<not> isArray collaborators
          then (Returned, console_error InvalidJsonFormat w)
          else main_sync h username teamName (elements collaborators) w)"

text \<open>
  The main function of \<^verbatim>\<open>GithubManagement.ts\<close>. \<open>token\<close> is \<^verbatim>\<open>process.env.GITHUB_TOKEN\<close>,
  \<open>readParse\<close> is \<^verbatim>\<open>fs.readFileSync\<close> followed by \<^verbatim>\<open>JSON.parse\<close> on the path typed,
  \<open>input\<close> the lines of standard input.
\<close>

definition main :: "host \<Rightarrow> string option \<Rightarrow> (string \<Rightarrow> error + jsval) \<Rightarrow> string list \<Rightarrow> outcome \<times> world" where
  "main h token readParse input =
     (case GitHubManager token of
        Inl e \<Rightarrow> (Rejected e, start input)
      | Inr u \<Rightarrow>
          (case getAuthenticatedUsername h (start input) of
             (Inl e, w) \<Rightarrow> (Rejected e, w)
           | (Inr username, w) \<Rightarrow>
               (case prompt (console_log (AuthenticatedAs username) w) of
                  None \<Rightarrow> (Pending, console_log (AuthenticatedAs username) w)
                | Some (filePath, w1) \<Rightarrow>
                    (case readParse filePath of
                       Inl e \<Rightarrow> (Returned, console_error (ErrorReadingOrParsingJsonFile e) w1)
                     | Inr teamData \<Rightarrow> main_manifest h username teamData w1))))"

section \<open>The interactive flow\<close>

text \<open>
  The class of \<^verbatim>\<open>part_000\<close> has the same \<^verbatim>\<open>getAuthenticatedUsername\<close> and
  \<^verbatim>\<open>createRepository\<close> as the one above. Its methods to add and to remove a
  collaborator print another message on failure, and it can delete a repository. Every
  argument is a string here: a line typed at a prompt.
\<close>

definition deleteRepository :: "host \<Rightarrow> string \<Rightarrow> string \<Rightarrow> world \<Rightarrow> world" where
  "deleteRepository h owner repoName w =
     (case repos_delete h (trace w) owner (JStr repoName) of
        Inr u \<Rightarrow>
          console_log (RepositoryDeleted owner (JStr repoName))
            (request (ReposDelete owner (JStr repoName)) w)
      | Inl e \<Rightarrow>
          console_error (ErrorDeletingRepository e)
            (request (ReposDelete owner (JStr repoName)) w))"

definition addUserToRepository_interactive :: "host \<Rightarrow> string \<Rightarrow> string \<Rightarrow> string \<Rightarrow> world \<Rightarrow> world" where
  "addUserToRepository_interactive h owner repoName username w =
     (case repos_addCollaborator h (trace w) owner (JStr repoName) (JStr username) of
        Inr u \<Rightarrow>
          console_log (UserAdded (JStr username) owner (JStr repoName))
            (request (ReposAddCollaborator owner (JStr repoName) (JStr username) ''push'') w)
      | Inl e \<Rightarrow>
          console_error (ErrorAddingUserToRepository e)
            (request (ReposAddCollaborator owner (JStr repoName) (JStr username) ''push'') w))"

definition removeUserFromRepository_interactive :: "host \<Rightarrow> string \<Rightarrow> string \<Rightarrow> string \<Rightarrow> world \<Rightarrow> world" where
  "removeUserFromRepository_interactive h owner repoName username w =
     (case repos_removeCollaborator h (trace w) owner (JStr repoName) (JStr username) of
        Inr u \<Rightarrow>
          console_log (UserRemoved (JStr username) owner (JStr repoName))
            (request (ReposRemoveCollaborator owner (JStr repoName) (JStr username)) w)
      | Inl e \<Rightarrow>
          console_error (ErrorRemovingUserFromRepository e)
            (request (ReposRemoveCollaborator owner (JStr repoName) (JStr username)) w))"

text \<open>
  The loop \<^verbatim>\<open>while (true) { collaborator = await prompt(...); if (!collaborator) break;
  await act(collaborator) }\<close>, which the program has three times: \<open>act\<close> is the call in
  its body, the list is what standard input still holds. The result is \<open>True\<close> when the
  loop was left through \<^verbatim>\<open>break\<close>, \<open>False\<close> when the input ended first and the prompt
  stays unanswered.
\<close>

fun collaborator_loop :: "(string \<Rightarrow> world \<Rightarrow> world) \<Rightarrow> string list \<Rightarrow> world \<Rightarrow> bool \<times> world" where
  "collaborator_loop act [] w = (False, w\<lparr>stdin := []\<rparr>)"
| "collaborator_loop act (collaborator # rest) w =
     (if collaborator = [] then (True, w\<lparr>stdin := rest\<rparr>)
      else collaborator_loop act rest (act collaborator (w\<lparr>stdin := rest\<rparr>)))"

text \<open>What follows a loop: \<^verbatim>\<open>console.log("Program completed.")\<close>, when the loop ends.\<close>

definition after_loop :: "bool \<times> world \<Rightarrow> outcome \<times> world" where
  "after_loop r =
     (case r of
        (True, w) \<Rightarrow> (Completed, console_log ProgramCompleted w)
      | (False, w) \<Rightarrow> (Pending, w))"

text \<open>The branch \<^verbatim>\<open>action === "create"\<close>.\<close>

definition interactive_create :: "host \<Rightarrow> string \<Rightarrow> world \<Rightarrow> outcome \<times> world" where
  "interactive_create h username w =
     (case prompt w of
        None \<Rightarrow> (Pending, w)
      | Some (repoName, w1) \<Rightarrow>
          (let w2 = createRepository h (JStr repoName) True w1
           in after_loop
                (collaborator_loop (addUserToRepository_interactive h username repoName)
                   (stdin w2) w2)))"

text \<open>The branch \<^verbatim>\<open>editAction === "delete"\<close>.\<close>

definition interactive_delete :: "host \<Rightarrow> string \<Rightarrow> string \<Rightarrow> world \<Rightarrow> outcome \<times> world" where
  "interactive_delete h username repoName w =
     (case prompt w of
        None \<Rightarrow> (Pending, w)
      | Some (confirm, w1) \<Rightarrow>
          if toLowerCase confirm = ''yes''
          then (Completed, console_log ProgramCompleted (deleteRepository h username repoName w1))
          else (Completed, console_log ProgramCompleted (console_log RepositoryDeletionCanceled w1)))"

text \<open>The branch \<^verbatim>\<open>action === "edit"\<close>.\<close>

definition interactive_edit :: "host \<Rightarrow> string \<Rightarrow> world \<Rightarrow> outcome \<times> world" where
  "interactive_edit h username w =
     (case prompt w of
        None \<Rightarrow> (Pending, w)
      | Some (repoName, w1) \<Rightarrow>
          (case prompt w1 of
             None \<Rightarrow> (Pending, w1)
           | Some (editActionInput, w2) \<Rightarrow>
               (let editAction = toLowerCase editActionInput in
                if editAction = ''add'' then
                  after_loop
                    (collaborator_loop (addUserToRepository_interactive h username repoName)
                       (stdin w2) w2)
                else if editAction = ''remove'' then
                  after_loop
                    (collaborator_loop (removeUserFromRepository_interactive h username repoName)
                       (stdin w2) w2)
                else if editAction = ''delete'' then interactive_delete h username repoName w2
                else (Completed, console_log ProgramCompleted (console_log InvalidAction w2)))))"

text \<open>The main function of \<^verbatim>\<open>part_000\<close>.\<close>

definition interactive_main :: "host \<Rightarrow> string option \<Rightarrow> string list \<Rightarrow> outcome \<times> world" where
  "interactive_main h token input =
     (case GitHubManager token of
        Inl e \<Rightarrow> (Rejected e, start input)
      | Inr u \<Rightarrow>
          (case getAuthenticatedUsername h (start input) of
             (Inl e, w) \<Rightarrow> (Rejected e, w)
           | (Inr username, w) \<Rightarrow>
               (case prompt (console_log (AuthenticatedAs username) w) of
                  None \<Rightarrow> (Pending, console_log (AuthenticatedAs username) w)
                | Some (actionInput, w1) \<Rightarrow>
                    (let action = toLowerCase actionInput in
                     if action = ''create'' then interactive_create h username w1
                     else if action = ''edit'' then interactive_edit h username w1
                     else (Completed,
                           console_log ProgramCompleted (console_log InvalidOption w1))))))"

section \<open>Hosts and inputs for the concrete runs\<close>

text \<open>A host that accepts every request; the repository exists and has three collaborators.\<close>

definition host_ok :: host where
  "host_ok =
     \<lparr>users_getAuthenticated = (\<lambda>hist. Inr ''Owner1''),
      repos_get = (\<lambda>hist owner repo. Inr ()),
      repos_createForAuthenticatedUser = (\<lambda>hist name private. Inr ''https://host/Owner1/team''),
      repos_delete = (\<lambda>hist owner repo. Inr ()),
      repos_addCollaborator = (\<lambda>hist owner repo username. Inr ()),
      repos_removeCollaborator = (\<lambda>hist owner repo username. Inr ()),
      repos_listCollaborators = (\<lambda>hist owner repo. Inr [''Bob'', ''carol'', ''Owner1''])\<rparr>"

text \<open>The same host, where listing the collaborators fails with status 500.\<close>

definition host_list_fails :: host where
  "host_list_fails = host_ok\<lparr>repos_listCollaborators := (\<lambda>hist owner repo. Inl (RequestError 500))\<rparr>"

text \<open>A host with no repository, on which creating one and adding a collaborator fail.\<close>

definition host_absent :: host where
  "host_absent =
     host_ok\<lparr>repos_get := (\<lambda>hist owner repo. Inl (RequestError 404)),
             repos_createForAuthenticatedUser := (\<lambda>hist name private. Inl (RequestError 422)),
             repos_addCollaborator := (\<lambda>hist owner repo username. Inl (RequestError 403))\<rparr>"

text \<open>A host on which the repository exists and every change is refused.\<close>

definition host_readonly :: host where
  "host_readonly =
     host_ok\<lparr>repos_createForAuthenticatedUser := (\<lambda>hist name private. Inl (RequestError 422)),
             repos_addCollaborator := (\<lambda>hist owner repo username. Inl (RequestError 403)),
             repos_removeCollaborator := (\<lambda>hist owner repo username. Inl (RequestError 403))\<rparr>"

text \<open>A host whose existence check fails with status 500.\<close>

definition host_down :: host where
  "host_down = host_ok\<lparr>repos_get := (\<lambda>hist owner repo. Inl (RequestError 500))\<rparr>"

text \<open>Three parsed manifests: a well-formed one, one without \<^verbatim>\<open>teamName\<close>, and one whose
  \<^verbatim>\<open>collaborators\<close> is a string.\<close>

definition manifest_team :: jsval where
  "manifest_team =
     JObj [(''teamName'', JStr ''team''),
           (''collaborators'', JArr [JStr ''alice'', JStr ''BOB'', JStr ''Alice''])]"

definition manifest_no_teamName :: jsval where
  "manifest_no_teamName = JObj [(''collaborators'', JArr [JStr ''alice''])]"

definition manifest_collaborators_string :: jsval where
  "manifest_collaborators_string =
     JObj [(''teamName'', JStr ''team''), (''collaborators'', JStr ''alice'')]"

section \<open>Basic facts\<close>

subsection \<open>Lowercasing and membership\<close>

lemma toLowerCase_char_idem: "toLowerCase_char (toLowerCase_char c) = toLowerCase_char c"
  by (simp add: toLowerCase_char_def Let_def)

lemma toLowerCase_idem: "toLowerCase (toLowerCase s) = toLowerCase s"
  by (simp add: toLowerCase_def toLowerCase_char_idem)

lemma array_includes_iff: "array_includes xs x \<longleftrightarrow> x \<in> set xs"
  by (induction xs) auto

lemma map_toLowerCase_strings: "map_toLowerCase (map JStr D) = Inr (map toLowerCase D)"
  by (induction D) auto

subsection \<open>The requests a method sends do not depend on the host's answers\<close>

lemma trace_request: "trace (request c w) = trace w @ [c]"
  by (simp add: request_def)

lemma trace_console_log: "trace (console_log m w) = trace w"
  by (simp add: console_log_def)

lemma trace_console_error: "trace (console_error m w) = trace w"
  by (simp add: console_error_def)

lemmas trace_simps = trace_request trace_console_log trace_console_error

lemma trace_addUserToRepository:
  "trace (addUserToRepository h owner repoName username w) =
     trace w @ [ReposAddCollaborator owner repoName username ''push'']"
  by (simp add: addUserToRepository_def trace_simps split: sum.split)

lemma trace_removeUserFromRepository:
  "trace (removeUserFromRepository h owner repoName username w) =
     trace w @ [ReposRemoveCollaborator owner repoName username]"
  by (simp add: removeUserFromRepository_def trace_simps split: sum.split)

lemma trace_createRepository:
  "trace (createRepository h repoName isPrivate w) =
     trace w @ [ReposCreateForAuthenticatedUser repoName isPrivate]"
  by (simp add: createRepository_def trace_simps split: sum.split)

lemma trace_add_each:
  "trace (add_each h username teamName collabs w) =
     trace w @ map (\<lambda>collab. ReposAddCollaborator username teamName collab ''push'') collabs"
  unfolding add_each_def
  by (induction collabs arbitrary: w) (simp_all add: trace_addUserToRepository)

lemma trace_remove_each:
  "trace (remove_each h username teamName collabs w) =
     trace w @ map (\<lambda>collab. ReposRemoveCollaborator username teamName collab) collabs"
  unfolding remove_each_def
  by (induction collabs arbitrary: w) (simp_all add: trace_removeUserFromRepository)

subsection \<open>The branches of the manifest flow\<close>

lemma reconcile_filter:
  "reconcile D C O' =
     (filter (\<lambda>d. d \<notin> set (map toLowerCase C)) (map toLowerCase D),
      filter (\<lambda>c. c \<notin> set (map toLowerCase D) \<and> c \<noteq> toLowerCase O') (map toLowerCase C))"
  by (simp add: reconcile_def collaboratorsToAdd_def collaboratorsToRemove_def Let_def
      array_includes_iff)

lemma main_update_listed:
  assumes "repos_listCollaborators h (trace w) username teamName = Inr C"
  shows "fst (main_update h username teamName (map JStr D) w) = Completed"
    and "trace (snd (main_update h username teamName (map JStr D) w)) =
           trace w @ [ReposListCollaborators username teamName]
           @ map (\<lambda>x. ReposAddCollaborator username teamName (JStr x) ''push'')
               (fst (reconcile D C username))
           @ map (\<lambda>x. ReposRemoveCollaborator username teamName (JStr x))
               (snd (reconcile D C username))"
  using assms
  by (simp_all add: main_update_def listCollaborators_def map_toLowerCase_strings Let_def
      trace_simps trace_add_each trace_remove_each reconcile_def comp_def)

lemma main_update_list_fails:
  assumes "repos_listCollaborators h (trace w) username teamName = Inl e"
  shows "main_update h username teamName collaborators w =
     (Rejected e,
      console_error (ErrorListingCollaborators e)
        (request (ReposListCollaborators username teamName)
           (console_log (RepositoryExistsUpdating teamName) w)))"
  using assms by (simp add: main_update_def listCollaborators_def trace_simps)

lemma main_create_trace:
  "fst (main_create h username teamName collaborators w) = Completed"
  "trace (snd (main_create h username teamName collaborators w)) =
     trace w @ [ReposCreateForAuthenticatedUser teamName True]
     @ map (\<lambda>collab. ReposAddCollaborator username teamName collab ''push'') collaborators"
  by (simp_all add: main_create_def Let_def trace_simps trace_add_each trace_createRepository)

lemma main_sync_exists:
  assumes "repos_get h (trace w) username teamName = Inr ()"
  shows "main_sync h username teamName cs w =
           main_update h username teamName cs (request (ReposGet username teamName) w)"
  using assms by (simp add: main_sync_def repositoryExists_def)

lemma main_sync_absent:
  assumes "repos_get h (trace w) username teamName = Inl e" and "status e = Some 404"
  shows "main_sync h username teamName cs w =
           main_create h username teamName cs (request (ReposGet username teamName) w)"
  using assms by (simp add: main_sync_def repositoryExists_def)

lemma main_sync_error:
  assumes "repos_get h (trace w) username teamName = Inl e" and "status e \<noteq> Some 404"
  shows "main_sync h username teamName cs w =
           (Rejected e, console_error (ErrorCheckingRepositoryExistence e)
                          (request (ReposGet username teamName) w))"
  using assms by (simp add: main_sync_def repositoryExists_def)

lemma main_well_formed:
  assumes "GitHubManager token = Inr ()"
      and "users_getAuthenticated h [] = Inr username"
      and "readParse filePath = Inr teamData"
      and "teamData \<noteq> JNull" and "teamData \<noteq> JUndefined"
      and "truthy (property teamData ''teamName'')"
      and "property teamData ''collaborators'' = JArr cs"
  shows "main h token readParse (filePath # rest) =
           main_sync h username (property teamData ''teamName'') cs
             \<lparr>trace = [UsersGetAuthenticated],
              console = [(Stdout, AuthenticatedAs username)], stdin = rest\<rparr>"
  using assms
  by (cases teamData)
     (simp_all add: main_def getAuthenticatedUsername_def start_def request_def
       console_log_def prompt_def main_manifest_def)

section \<open>Reconciliation\<close>

text \<open>
  C1. After lowercasing every identity of the desired list \<open>D\<close>, the current list \<open>C\<close>
  and the owner, \<open>toAdd\<close> is exactly the members of \<open>D\<close> not present in \<open>C\<close>, and
  \<open>toRemove\<close> exactly the members of \<open>C\<close> that are neither present in \<open>D\<close> nor equal to
  the owner: as lists, in the order of the source list and with its repetitions, and as
  sets.
\<close>

theorem reconcile_exact:
  "fst (reconcile D C owner) =
     filter (\<lambda>d. d \<notin> set (map toLowerCase C)) (map toLowerCase D)
   \<and> snd (reconcile D C owner) =
     filter (\<lambda>c. c \<notin> set (map toLowerCase D) \<and> c \<noteq> toLowerCase owner) (map toLowerCase C)
   \<and> set (fst (reconcile D C owner)) =
     {d \<in> toLowerCase ` set D. d \<notin> toLowerCase ` set C}
   \<and> set (snd (reconcile D C owner)) =
     {c \<in> toLowerCase ` set C. c \<notin> toLowerCase ` set D \<and> c \<noteq> toLowerCase owner}"
  by (auto simp add: reconcile_filter)

text \<open>
  C2. The two results are disjoint, \<open>toAdd\<close> shares no member with the current list,
  \<open>toRemove\<close> shares no member with the desired list, and the owner is never in
  \<open>toRemove\<close>, whether or not the desired list names the owner; all of it up to letter
  case.
\<close>

theorem reconcile_disjoint:
  assumes "reconcile D C owner = (toAdd, toRemove)"
  shows "set toAdd \<inter> set toRemove = {}
       \<and> (\<forall>a\<in>set toAdd. \<forall>r\<in>set toRemove. \<not> same_identity a r)
       \<and> (\<forall>a\<in>set toAdd. \<forall>c\<in>set C. \<not> same_identity a c)
       \<and> (\<forall>r\<in>set toRemove. \<forall>d\<in>set D. \<not> same_identity r d)
       \<and> (\<forall>r\<in>set toRemove. \<not> same_identity r owner)"
proof -
  have a: "toAdd = filter (\<lambda>d. d \<notin> set (map toLowerCase C)) (map toLowerCase D)"
    and r: "toRemove = filter (\<lambda>c. c \<notin> set (map toLowerCase D) \<and> c \<noteq> toLowerCase owner)
                        (map toLowerCase C)"
    using assms by (simp_all add: reconcile_filter)
  show ?thesis
    unfolding a r same_identity_def
    by (auto simp add: toLowerCase_idem)
qed

theorem reconcile_disjoint_witness:
  "reconcile [''alice'', ''BOB''] [''bob'', ''carol'', ''owner1''] ''owner1'' = ([''alice''], [''carol''])
   \<and> set [''alice''] \<inter> set [''carol''] = {}
   \<and> \<not> same_identity ''alice'' ''carol''
   \<and> \<not> same_identity ''alice'' ''bob''
   \<and> \<not> same_identity ''carol'' ''BOB''
   \<and> \<not> same_identity ''carol'' ''owner1''"
proof -
  have r: "reconcile [''alice'', ''BOB''] [''bob'', ''carol'', ''owner1''] ''owner1'' =
             ([''alice''], [''carol''])"
    by code_simp
  from reconcile_disjoint [OF r] r show ?thesis by simp
qed

text \<open>
  C5. Reconciling a list against a copy of itself whose members differ from it in letter
  case only gives nothing to add and nothing to remove.
\<close>

theorem reconcile_self:
  assumes "list_all2 same_identity D D'"
  shows "reconcile D D' owner = ([], [])"
proof -
  have "map toLowerCase D = map toLowerCase D'"
    using assms by (induction rule: list_all2_induct) (simp_all add: same_identity_def)
  then show ?thesis
    by (simp add: reconcile_filter)
qed

theorem reconcile_self_witness:
  "list_all2 same_identity [''Alice'', ''BOB'', ''bob''] [''alice'', ''Bob'', ''BOB'']
   \<and> reconcile [''Alice'', ''BOB'', ''bob''] [''alice'', ''Bob'', ''BOB''] ''owner1'' = ([], [])"
proof -
  have h: "list_all2 same_identity [''Alice'', ''BOB'', ''bob''] [''alice'', ''Bob'', ''BOB'']"
    by code_simp
  from reconcile_self [OF h] h show ?thesis by simp
qed

section \<open>The manifest driver\<close>

text \<open>The definitions a concrete run of the manifest flow unfolds.\<close>

lemmas run_defs = main_def GitHubManager_def getAuthenticatedUsername_def start_def request_def
  console_log_def console_error_def prompt_def main_manifest_def main_sync_def
  repositoryExists_def main_update_def main_create_def listCollaborators_def
  createRepository_def addUserToRepository_def removeUserFromRepository_def
  add_each_def remove_each_def collaboratorsToAdd_def collaboratorsToRemove_def

text \<open>
  C3, as stated, fails: the driver asks the host for the authenticated user before it
  reads the manifest, so a run on a manifest without \<^verbatim>\<open>teamName\<close> has made one host call
  when it prints the error and returns.
\<close>

theorem malformed_manifest_counterexample:
  "main host_ok (Some ''token'') (\<lambda>filePath. Inr manifest_no_teamName) [''team.json''] =
     (Returned,
      \<lparr>trace = [UsersGetAuthenticated],
       console = [(Stdout, AuthenticatedAs ''Owner1''), (Stderr, InvalidJsonFormat)],
       stdin = []\<rparr>)"
  by (simp add: run_defs host_ok_def manifest_no_teamName_def)

text \<open>
  C3, amended. When the \<^verbatim>\<open>teamName\<close> of the parsed manifest is falsy (missing or empty
  among others) or its \<^verbatim>\<open>collaborators\<close> is not an array, the only host call of the run is
  the \<^verbatim>\<open>getAuthenticated\<close> request made before the manifest is read: no existence check,
  creation, listing, addition or removal follows. The run prints the invalid-format error
  and returns; on the manifest \<^verbatim>\<open>null\<close> the destructuring throws instead.
\<close>

theorem malformed_manifest_aborts:
  assumes "GitHubManager token = Inr ()"
      and "users_getAuthenticated h [] = Inr username"
      and "readParse filePath = Inr teamData"
      and "\<not> truthy (property teamData ''teamName'')
           \<or> \<not> isArray (property teamData ''collaborators'')"
  shows "trace (snd (main h token readParse (filePath # rest))) = [UsersGetAuthenticated]
       \<and> fst (main h token readParse (filePath # rest)) =
           (if teamData = JNull \<or> teamData = JUndefined then Rejected TypeError else Returned)
       \<and> console (snd (main h token readParse (filePath # rest))) =
           (if teamData = JNull \<or> teamData = JUndefined
            then [(Stdout, AuthenticatedAs username)]
            else [(Stdout, AuthenticatedAs username), (Stderr, InvalidJsonFormat)])"
  using assms
  by (cases teamData)
     (auto simp add: main_def getAuthenticatedUsername_def start_def request_def
       console_log_def console_error_def prompt_def main_manifest_def)

theorem malformed_manifest_aborts_witness:
  "trace (snd (main host_ok (Some ''token'') (\<lambda>filePath. Inr manifest_collaborators_string)
                 [''team.json''])) = [UsersGetAuthenticated]
   \<and> fst (main host_ok (Some ''token'') (\<lambda>filePath. Inr manifest_collaborators_string)
             [''team.json'']) = Returned
   \<and> console (snd (main host_ok (Some ''token'') (\<lambda>filePath. Inr manifest_collaborators_string)
                     [''team.json''])) =
       [(Stdout, AuthenticatedAs ''Owner1''), (Stderr, InvalidJsonFormat)]"
proof -
  have t: "GitHubManager (Some ''token'') = Inr ()"
    by (simp add: GitHubManager_def)
  have u: "users_getAuthenticated host_ok [] = Inr ''Owner1''"
    by (simp add: host_ok_def)
  have m: "\<not> truthy (property manifest_collaborators_string ''teamName'')
           \<or> \<not> isArray (property manifest_collaborators_string ''collaborators'')"
    by (simp add: manifest_collaborators_string_def)
  have d: "manifest_collaborators_string \<noteq> JNull" "manifest_collaborators_string \<noteq> JUndefined"
    by (simp_all add: manifest_collaborators_string_def)
  from malformed_manifest_aborts
         [where h = host_ok and token = "Some ''token''" and username = "''Owner1''"
            and readParse = "\<lambda>filePath. Inr manifest_collaborators_string"
            and filePath = "''team.json''" and teamData = manifest_collaborators_string
            and rest = "[]", OF t u _ m] d
  show ?thesis by simp
qed

text \<open>
  C4, as stated, fails: \<^verbatim>\<open>listCollaborators\<close> logs the failure and throws it again, and
  the driver does not catch it. On a host whose listing fails, the run ends there: no
  collaborator is added or removed, though the manifest names three, and no completion
  message is printed.
\<close>

theorem list_failure_counterexample:
  "main host_list_fails (Some ''token'') (\<lambda>filePath. Inr manifest_team) [''team.json''] =
     (Rejected (RequestError 500),
      \<lparr>trace = [UsersGetAuthenticated, ReposGet ''Owner1'' (JStr ''team''),
                ReposListCollaborators ''Owner1'' (JStr ''team'')],
       console = [(Stdout, AuthenticatedAs ''Owner1''),
                  (Stdout, RepositoryExistsUpdating (JStr ''team'')),
                  (Stderr, ErrorListingCollaborators (RequestError 500))],
       stdin = []\<rparr>)"
  by (simp add: run_defs host_list_fails_def host_ok_def manifest_team_def)

text \<open>
  C4, amended. A failing add, remove or create call is caught and logged, and the run
  goes on: from the existence check on, the requests sent in the create branch and in
  the update branch are fixed by the manifest and the listing alone, whatever the host
  answers to the create, add and remove calls, and the run completes. A failing
  \<^verbatim>\<open>listCollaborators\<close> call is logged and thrown again: the run is rejected with that
  error, and no add or remove call is made.
\<close>

theorem host_failures_manifest_flow:
  "(repos_addCollaborator h (trace w) username teamName collab = Inl e \<longrightarrow>
      addUserToRepository h username teamName collab w =
        console_error (ErrorAddingUser collab e)
          (request (ReposAddCollaborator username teamName collab ''push'') w))
   \<and> (repos_removeCollaborator h (trace w) username teamName collab = Inl e \<longrightarrow>
      removeUserFromRepository h username teamName collab w =
        console_error (ErrorRemovingUser collab e)
          (request (ReposRemoveCollaborator username teamName collab) w))
   \<and> (repos_createForAuthenticatedUser h (trace w) teamName True = Inl e \<longrightarrow>
      createRepository h teamName True w =
        console_error (ErrorCreatingRepository e)
          (request (ReposCreateForAuthenticatedUser teamName True) w))
   \<and> (repos_get h (trace w) username teamName = Inl e \<and> status e = Some 404 \<longrightarrow>
      fst (main_sync h username teamName collaborators w) = Completed
      \<and> trace (snd (main_sync h username teamName collaborators w)) =
          trace w @ [ReposGet username teamName, ReposCreateForAuthenticatedUser teamName True]
          @ map (\<lambda>collab. ReposAddCollaborator username teamName collab ''push'') collaborators)
   \<and> (repos_get h (trace w) username teamName = Inr ()
       \<and> repos_listCollaborators h (trace w @ [ReposGet username teamName]) username teamName = Inr C \<longrightarrow>
      fst (main_sync h username teamName (map JStr D) w) = Completed
      \<and> trace (snd (main_sync h username teamName (map JStr D) w)) =
          trace w @ [ReposGet username teamName, ReposListCollaborators username teamName]
          @ map (\<lambda>x. ReposAddCollaborator username teamName (JStr x) ''push'')
              (fst (reconcile D C username))
          @ map (\<lambda>x. ReposRemoveCollaborator username teamName (JStr x))
              (snd (reconcile D C username)))
   \<and> (repos_get h (trace w) username teamName = Inr ()
       \<and> repos_listCollaborators h (trace w @ [ReposGet username teamName]) username teamName = Inl e \<longrightarrow>
      main_sync h username teamName collaborators w =
        (Rejected e,
         console_error (ErrorListingCollaborators e)
           (request (ReposListCollaborators username teamName)
              (console_log (RepositoryExistsUpdating teamName)
                 (request (ReposGet username teamName) w)))))"
proof (intro conjI impI)
  assume "repos_addCollaborator h (trace w) username teamName collab = Inl e"
  then show "addUserToRepository h username teamName collab w =
        console_error (ErrorAddingUser collab e)
          (request (ReposAddCollaborator username teamName collab ''push'') w)"
    by (simp add: addUserToRepository_def)
next
  assume "repos_removeCollaborator h (trace w) username teamName collab = Inl e"
  then show "removeUserFromRepository h username teamName collab w =
        console_error (ErrorRemovingUser collab e)
          (request (ReposRemoveCollaborator username teamName collab) w)"
    by (simp add: removeUserFromRepository_def)
next
  assume "repos_createForAuthenticatedUser h (trace w) teamName True = Inl e"
  then show "createRepository h teamName True w =
        console_error (ErrorCreatingRepository e)
          (request (ReposCreateForAuthenticatedUser teamName True) w)"
    by (simp add: createRepository_def)
next
  assume a: "repos_get h (trace w) username teamName = Inl e \<and> status e = Some 404"
  then have s: "main_sync h username teamName collaborators w =
      main_create h username teamName collaborators (request (ReposGet username teamName) w)"
    by (simp add: main_sync_absent)
  show "fst (main_sync h username teamName collaborators w) = Completed"
    by (simp add: s main_create_trace)
  show "trace (snd (main_sync h username teamName collaborators w)) =
          trace w @ [ReposGet username teamName, ReposCreateForAuthenticatedUser teamName True]
          @ map (\<lambda>collab. ReposAddCollaborator username teamName collab ''push'') collaborators"
    by (simp add: s main_create_trace trace_request)
next
  assume a: "repos_get h (trace w) username teamName = Inr ()
       \<and> repos_listCollaborators h (trace w @ [ReposGet username teamName]) username teamName = Inr C"
  then have s: "main_sync h username teamName (map JStr D) w =
      main_update h username teamName (map JStr D) (request (ReposGet username teamName) w)"
    by (simp add: main_sync_exists)
  from a have l: "repos_listCollaborators h (trace (request (ReposGet username teamName) w))
                    username teamName = Inr C"
    by (simp add: trace_request)
  show "fst (main_sync h username teamName (map JStr D) w) = Completed"
    by (simp add: s main_update_listed [OF l])
  show "trace (snd (main_sync h username teamName (map JStr D) w)) =
          trace w @ [ReposGet username teamName, ReposListCollaborators username teamName]
          @ map (\<lambda>x. ReposAddCollaborator username teamName (JStr x) ''push'')
              (fst (reconcile D C username))
          @ map (\<lambda>x. ReposRemoveCollaborator username teamName (JStr x))
              (snd (reconcile D C username))"
    by (simp add: s main_update_listed [OF l] trace_request)
next
  assume a: "repos_get h (trace w) username teamName = Inr ()
       \<and> repos_listCollaborators h (trace w @ [ReposGet username teamName]) username teamName = Inl e"
  then have s: "main_sync h username teamName collaborators w =
      main_update h username teamName collaborators (request (ReposGet username teamName) w)"
    by (simp add: main_sync_exists)
  from a have l: "repos_listCollaborators h (trace (request (ReposGet username teamName) w))
                    username teamName = Inl e"
    by (simp add: trace_request)
  show "main_sync h username teamName collaborators w =
        (Rejected e,
         console_error (ErrorListingCollaborators e)
           (request (ReposListCollaborators username teamName)
              (console_log (RepositoryExistsUpdating teamName)
                 (request (ReposGet username teamName) w))))"
    by (simp add: s main_update_list_fails [OF l])
qed

theorem host_failures_manifest_flow_witness:
  "addUserToRepository host_readonly ''Owner1'' (JStr ''team'') (JStr ''alice'') (start []) =
     \<lparr>trace = [ReposAddCollaborator ''Owner1'' (JStr ''team'') (JStr ''alice'') ''push''],
      console = [(Stderr, ErrorAddingUser (JStr ''alice'') (RequestError 403))], stdin = []\<rparr>
   \<and> removeUserFromRepository host_readonly ''Owner1'' (JStr ''team'') (JStr ''alice'') (start []) =
     \<lparr>trace = [ReposRemoveCollaborator ''Owner1'' (JStr ''team'') (JStr ''alice'')],
      console = [(Stderr, ErrorRemovingUser (JStr ''alice'') (RequestError 403))], stdin = []\<rparr>
   \<and> createRepository host_readonly (JStr ''team'') True (start []) =
     \<lparr>trace = [ReposCreateForAuthenticatedUser (JStr ''team'') True],
      console = [(Stderr, ErrorCreatingRepository (RequestError 422))], stdin = []\<rparr>
   \<and> fst (main_sync host_absent ''Owner1'' (JStr ''team'') [JStr ''alice'', JStr ''BOB''] (start []))
       = Completed
   \<and> trace (snd (main_sync host_absent ''Owner1'' (JStr ''team'') [JStr ''alice'', JStr ''BOB'']
                    (start []))) =
       [ReposGet ''Owner1'' (JStr ''team''),
        ReposCreateForAuthenticatedUser (JStr ''team'') True,
        ReposAddCollaborator ''Owner1'' (JStr ''team'') (JStr ''alice'') ''push'',
        ReposAddCollaborator ''Owner1'' (JStr ''team'') (JStr ''BOB'') ''push'']
   \<and> fst (main_sync host_readonly ''Owner1'' (JStr ''team'') (map JStr [''alice'', ''BOB''])
             (start [])) = Completed
   \<and> trace (snd (main_sync host_readonly ''Owner1'' (JStr ''team'') (map JStr [''alice'', ''BOB''])
                    (start []))) =
       [ReposGet ''Owner1'' (JStr ''team''),
        ReposListCollaborators ''Owner1'' (JStr ''team''),
        ReposAddCollaborator ''Owner1'' (JStr ''team'') (JStr ''alice'') ''push'',
        ReposRemoveCollaborator ''Owner1'' (JStr ''team'') (JStr ''carol'')]
   \<and> main_sync host_list_fails ''Owner1'' (JStr ''team'') [JStr ''alice'', JStr ''BOB''] (start []) =
       (Rejected (RequestError 500),
        \<lparr>trace = [ReposGet ''Owner1'' (JStr ''team''),
                  ReposListCollaborators ''Owner1'' (JStr ''team'')],
         console = [(Stdout, RepositoryExistsUpdating (JStr ''team'')),
                    (Stderr, ErrorListingCollaborators (RequestError 500))],
         stdin = []\<rparr>)"
proof -
  note ro = host_failures_manifest_flow
    [where h = host_readonly and w = "start []" and username = "''Owner1''"
       and teamName = "JStr ''team''" and collab = "JStr ''alice''" and e = "RequestError 403"
       and D = "[''alice'', ''BOB'']" and C = "[''Bob'', ''carol'', ''Owner1'']"]
  note cr = host_failures_manifest_flow
    [where h = host_readonly and w = "start []" and teamName = "JStr ''team''"
       and e = "RequestError 422"]
  note ab = host_failures_manifest_flow
    [where h = host_absent and w = "start []" and username = "''Owner1''"
       and teamName = "JStr ''team''" and e = "RequestError 404"
       and collaborators = "[JStr ''alice'', JStr ''BOB'']"]
  note lf = host_failures_manifest_flow
    [where h = host_list_fails and w = "start []" and username = "''Owner1''"
       and teamName = "JStr ''team''" and e = "RequestError 500"
       and collaborators = "[JStr ''alice'', JStr ''BOB'']"]
  have r: "reconcile [''alice'', ''BOB''] [''Bob'', ''carol'', ''Owner1''] ''Owner1'' =
             ([''alice''], [''carol''])"
    by code_simp
  have 1: "addUserToRepository host_readonly ''Owner1'' (JStr ''team'') (JStr ''alice'') (start []) =
     \<lparr>trace = [ReposAddCollaborator ''Owner1'' (JStr ''team'') (JStr ''alice'') ''push''],
      console = [(Stderr, ErrorAddingUser (JStr ''alice'') (RequestError 403))], stdin = []\<rparr>"
    using ro by (simp add: host_readonly_def host_ok_def start_def request_def console_error_def)
  have 2: "removeUserFromRepository host_readonly ''Owner1'' (JStr ''team'') (JStr ''alice'') (start []) =
     \<lparr>trace = [ReposRemoveCollaborator ''Owner1'' (JStr ''team'') (JStr ''alice'')],
      console = [(Stderr, ErrorRemovingUser (JStr ''alice'') (RequestError 403))], stdin = []\<rparr>"
    using ro by (simp add: host_readonly_def host_ok_def start_def request_def console_error_def)
  have 3: "createRepository host_readonly (JStr ''team'') True (start []) =
     \<lparr>trace = [ReposCreateForAuthenticatedUser (JStr ''team'') True],
      console = [(Stderr, ErrorCreatingRepository (RequestError 422))], stdin = []\<rparr>"
    using cr by (simp add: host_readonly_def host_ok_def start_def request_def console_error_def)
  have 4: "fst (main_sync host_absent ''Owner1'' (JStr ''team'') [JStr ''alice'', JStr ''BOB''] (start []))
       = Completed
   \<and> trace (snd (main_sync host_absent ''Owner1'' (JStr ''team'') [JStr ''alice'', JStr ''BOB'']
                    (start []))) =
       [ReposGet ''Owner1'' (JStr ''team''),
        ReposCreateForAuthenticatedUser (JStr ''team'') True,
        ReposAddCollaborator ''Owner1'' (JStr ''team'') (JStr ''alice'') ''push'',
        ReposAddCollaborator ''Owner1'' (JStr ''team'') (JStr ''BOB'') ''push'']"
    using ab by (simp add: host_absent_def host_ok_def start_def)
  have 5: "fst (main_sync host_readonly ''Owner1'' (JStr ''team'') (map JStr [''alice'', ''BOB''])
             (start [])) = Completed
   \<and> trace (snd (main_sync host_readonly ''Owner1'' (JStr ''team'') (map JStr [''alice'', ''BOB''])
                    (start []))) =
       [ReposGet ''Owner1'' (JStr ''team''),
        ReposListCollaborators ''Owner1'' (JStr ''team''),
        ReposAddCollaborator ''Owner1'' (JStr ''team'') (JStr ''alice'') ''push'',
        ReposRemoveCollaborator ''Owner1'' (JStr ''team'') (JStr ''carol'')]"
    using ro r by (simp add: host_readonly_def host_ok_def start_def)
  have 6: "main_sync host_list_fails ''Owner1'' (JStr ''team'') [JStr ''alice'', JStr ''BOB''] (start []) =
       (Rejected (RequestError 500),
        \<lparr>trace = [ReposGet ''Owner1'' (JStr ''team''),
                  ReposListCollaborators ''Owner1'' (JStr ''team'')],
         console = [(Stdout, RepositoryExistsUpdating (JStr ''team'')),
                    (Stderr, ErrorListingCollaborators (RequestError 500))],
         stdin = []\<rparr>)"
    using lf by (simp add: host_list_fails_def host_ok_def start_def request_def console_error_def
        console_log_def)
  from 1 2 3 4 5 6 show ?thesis by simp
qed

text \<open>
  C6. \<^verbatim>\<open>repositoryExists\<close> returns \<open>False\<close> exactly when the host rejects the lookup with
  status 404, \<open>True\<close> exactly when the lookup succeeds, and throws the host's error again
  in every other case; it sends one request.
\<close>

theorem repositoryExists_result:
  "(fst (repositoryExists h owner repoName w) = Inr False \<longleftrightarrow>
      (\<exists>e. repos_get h (trace w) owner repoName = Inl e \<and> status e = Some 404))
   \<and> (fst (repositoryExists h owner repoName w) = Inr True \<longleftrightarrow>
      repos_get h (trace w) owner repoName = Inr ())
   \<and> (\<forall>e. fst (repositoryExists h owner repoName w) = Inl e \<longleftrightarrow>
      repos_get h (trace w) owner repoName = Inl e \<and> status e \<noteq> Some 404)
   \<and> trace (snd (repositoryExists h owner repoName w)) = trace w @ [ReposGet owner repoName]"
  by (cases "repos_get h (trace w) owner repoName")
     (auto simp add: repositoryExists_def trace_request trace_console_error)

theorem repositoryExists_result_witness:
  "fst (repositoryExists host_absent ''Owner1'' (JStr ''team'') (start [])) = Inr False
   \<and> fst (repositoryExists host_ok ''Owner1'' (JStr ''team'') (start [])) = Inr True
   \<and> fst (repositoryExists host_down ''Owner1'' (JStr ''team'') (start [])) =
       Inl (RequestError 500)"
proof -
  have a: "repos_get host_absent (trace (start [])) ''Owner1'' (JStr ''team'') =
             Inl (RequestError 404) \<and> status (RequestError 404) = Some 404"
    by (simp add: host_absent_def host_ok_def)
  have b: "repos_get host_ok (trace (start [])) ''Owner1'' (JStr ''team'') = Inr ()"
    by (simp add: host_ok_def)
  have c: "repos_get host_down (trace (start [])) ''Owner1'' (JStr ''team'') =
             Inl (RequestError 500) \<and> status (RequestError 500) \<noteq> Some 404"
    by (simp add: host_down_def host_ok_def)
  from repositoryExists_result [of host_absent "''Owner1''" "JStr ''team''" "start []"] a
  have 1: "fst (repositoryExists host_absent ''Owner1'' (JStr ''team'') (start [])) = Inr False"
    by blast
  from repositoryExists_result [of host_ok "''Owner1''" "JStr ''team''" "start []"] b
  have 2: "fst (repositoryExists host_ok ''Owner1'' (JStr ''team'') (start [])) = Inr True"
    by blast
  from repositoryExists_result [of host_down "''Owner1''" "JStr ''team''" "start []"] c
  have 3: "fst (repositoryExists host_down ''Owner1'' (JStr ''team'') (start [])) =
             Inl (RequestError 500)"
    by blast
  from 1 2 3 show ?thesis by simp
qed

subsection \<open>What the host is asked to add and to remove\<close>

lemma count_list_filter: "count_list (filter P xs) x = (if P x then count_list xs x else 0)"
  by (induction xs) auto

lemma count_list_map_inj: "inj f \<Longrightarrow> count_list (map f xs) (f x) = count_list xs x"
  by (induction xs) (auto dest: injD)

lemma filter_lowercase:
  "filter P (map toLowerCase xs) = map toLowerCase (filter (\<lambda>x. P (toLowerCase x)) xs)"
  by (induction xs) auto

text \<open>
  C9. The update branch does not remove repetitions: an identity that is not among the
  current collaborators and occurs \<open>k\<close> times in the manifest's array, after lowercasing,
  occurs \<open>k\<close> times in \<open>toAdd\<close>, and the run sends \<open>k\<close> add requests for it.
\<close>

theorem duplicates_added_each_time:
  assumes "repos_get h (trace w) username teamName = Inr ()"
      and "repos_listCollaborators h (trace w @ [ReposGet username teamName]) username teamName
             = Inr C"
      and "toLowerCase x \<notin> set (map toLowerCase C)"
  shows "count_list (fst (reconcile D C username)) (toLowerCase x) =
           count_list (map toLowerCase D) (toLowerCase x)
       \<and> count_list (trace (snd (main_sync h username teamName (map JStr D) w)))
           (ReposAddCollaborator username teamName (JStr (toLowerCase x)) ''push'') =
         count_list (trace w)
           (ReposAddCollaborator username teamName (JStr (toLowerCase x)) ''push'')
         + count_list (map toLowerCase D) (toLowerCase x)"
proof -
  let ?add = "\<lambda>s. ReposAddCollaborator username teamName (JStr s) ''push''"
  let ?remove = "\<lambda>s. ReposRemoveCollaborator username teamName (JStr s)"
  have l: "repos_listCollaborators h (trace (request (ReposGet username teamName) w))
             username teamName = Inr C"
    using assms(2) by (simp add: trace_request)
  have k: "count_list (fst (reconcile D C username)) (toLowerCase x) =
             count_list (map toLowerCase D) (toLowerCase x)"
    using assms(3) by (simp add: reconcile_filter count_list_filter)
  have "inj ?add"
    by (simp add: inj_def)
  from count_list_map_inj [OF this, of "fst (reconcile D C username)" "toLowerCase x"]
  have a: "count_list (map ?add (fst (reconcile D C username))) (?add (toLowerCase x)) =
             count_list (map toLowerCase D) (toLowerCase x)"
    using k by simp
  have r: "count_list (map ?remove (snd (reconcile D C username))) (?add (toLowerCase x)) = 0"
    by (rule count_notin) auto
  have "trace (snd (main_sync h username teamName (map JStr D) w)) =
          trace w @ [ReposGet username teamName, ReposListCollaborators username teamName]
          @ map ?add (fst (reconcile D C username))
          @ map ?remove (snd (reconcile D C username))"
    by (simp add: main_sync_exists [OF assms(1)] main_update_listed [OF l] trace_request)
  then have "count_list (trace (snd (main_sync h username teamName (map JStr D) w)))
               (?add (toLowerCase x)) =
             count_list (trace w) (?add (toLowerCase x))
             + count_list (map toLowerCase D) (toLowerCase x)"
    using a r by simp
  with k show ?thesis by simp
qed

theorem duplicates_added_each_time_witness:
  "count_list (fst (reconcile [''alice'', ''BOB'', ''Alice''] [''Bob'', ''carol'', ''Owner1'']
                      ''Owner1'')) ''alice'' = 2
   \<and> count_list (trace (snd (main_sync host_ok ''Owner1'' (JStr ''team'')
                               (map JStr [''alice'', ''BOB'', ''Alice'']) (start []))))
       (ReposAddCollaborator ''Owner1'' (JStr ''team'') (JStr ''alice'') ''push'') = 2"
proof -
  have g: "repos_get host_ok (trace (start [])) ''Owner1'' (JStr ''team'') = Inr ()"
    by (simp add: host_ok_def)
  have c: "repos_listCollaborators host_ok (trace (start []) @ [ReposGet ''Owner1'' (JStr ''team'')])
             ''Owner1'' (JStr ''team'') = Inr [''Bob'', ''carol'', ''Owner1'']"
    by (simp add: host_ok_def)
  have x: "toLowerCase ''ALICE'' = ''alice''"
    by (simp add: toLowerCase_def toLowerCase_char_def char_of_eq_iff)
  have n: "toLowerCase ''ALICE'' \<notin> set (map toLowerCase [''Bob'', ''carol'', ''Owner1''])"
    by (simp add: toLowerCase_def toLowerCase_char_def char_of_eq_iff)
  have k: "count_list (map toLowerCase [''alice'', ''BOB'', ''Alice'']) ''alice'' = 2"
    by (simp add: toLowerCase_def toLowerCase_char_def char_of_eq_iff)
  from duplicates_added_each_time [OF g c n, of "[''alice'', ''BOB'', ''Alice'']"] x k
  show ?thesis by (simp add: start_def)
qed

text \<open>
  C10. When the repository exists, every add and every remove request carries the
  lowercase form of a name, whatever its casing in the manifest or in the host's
  listing; when the repository is absent, the add requests carry the entries of the
  manifest as they are.
\<close>

theorem usernames_passed_to_host:
  "(repos_get h (trace w) username teamName = Inr ()
    \<and> repos_listCollaborators h (trace w @ [ReposGet username teamName]) username teamName = Inr C
    \<longrightarrow>
      trace (snd (main_sync h username teamName (map JStr D) w)) =
        trace w @ [ReposGet username teamName, ReposListCollaborators username teamName]
        @ map (\<lambda>d. ReposAddCollaborator username teamName (JStr (toLowerCase d)) ''push'')
            (filter (\<lambda>d. toLowerCase d \<notin> toLowerCase ` set C) D)
        @ map (\<lambda>c. ReposRemoveCollaborator username teamName (JStr (toLowerCase c)))
            (filter (\<lambda>c. toLowerCase c \<notin> toLowerCase ` set D
                         \<and> toLowerCase c \<noteq> toLowerCase username) C))
   \<and> (repos_get h (trace w) username teamName = Inl e \<and> status e = Some 404 \<longrightarrow>
      trace (snd (main_sync h username teamName collaborators w)) =
        trace w @ [ReposGet username teamName, ReposCreateForAuthenticatedUser teamName True]
        @ map (\<lambda>collab. ReposAddCollaborator username teamName collab ''push'') collaborators)"
proof (intro conjI impI)
  assume a: "repos_get h (trace w) username teamName = Inr ()
    \<and> repos_listCollaborators h (trace w @ [ReposGet username teamName]) username teamName = Inr C"
  then have l: "repos_listCollaborators h (trace (request (ReposGet username teamName) w))
                  username teamName = Inr C"
    by (simp add: trace_request)
  from a have s: "main_sync h username teamName (map JStr D) w =
      main_update h username teamName (map JStr D) (request (ReposGet username teamName) w)"
    by (simp add: main_sync_exists)
  show "trace (snd (main_sync h username teamName (map JStr D) w)) =
        trace w @ [ReposGet username teamName, ReposListCollaborators username teamName]
        @ map (\<lambda>d. ReposAddCollaborator username teamName (JStr (toLowerCase d)) ''push'')
            (filter (\<lambda>d. toLowerCase d \<notin> toLowerCase ` set C) D)
        @ map (\<lambda>c. ReposRemoveCollaborator username teamName (JStr (toLowerCase c)))
            (filter (\<lambda>c. toLowerCase c \<notin> toLowerCase ` set D
                         \<and> toLowerCase c \<noteq> toLowerCase username) C)"
    by (simp add: s main_update_listed [OF l] trace_request reconcile_filter filter_lowercase
        comp_def)
next
  assume a: "repos_get h (trace w) username teamName = Inl e \<and> status e = Some 404"
  then have s: "main_sync h username teamName collaborators w =
      main_create h username teamName collaborators (request (ReposGet username teamName) w)"
    by (simp add: main_sync_absent)
  show "trace (snd (main_sync h username teamName collaborators w)) =
        trace w @ [ReposGet username teamName, ReposCreateForAuthenticatedUser teamName True]
        @ map (\<lambda>collab. ReposAddCollaborator username teamName collab ''push'') collaborators"
    by (simp add: s main_create_trace trace_request)
qed

theorem usernames_passed_to_host_witness:
  "trace (snd (main_sync host_ok ''Owner1'' (JStr ''team'')
                 (map JStr [''alice'', ''BOB'', ''Dave'']) (start []))) =
     [ReposGet ''Owner1'' (JStr ''team''), ReposListCollaborators ''Owner1'' (JStr ''team''),
      ReposAddCollaborator ''Owner1'' (JStr ''team'') (JStr ''alice'') ''push'',
      ReposAddCollaborator ''Owner1'' (JStr ''team'') (JStr ''dave'') ''push'',
      ReposRemoveCollaborator ''Owner1'' (JStr ''team'') (JStr ''carol'')]
   \<and> trace (snd (main_sync host_absent ''Owner1'' (JStr ''team'')
                    [JStr ''alice'', JStr ''BOB'', JStr ''Dave''] (start []))) =
     [ReposGet ''Owner1'' (JStr ''team''), ReposCreateForAuthenticatedUser (JStr ''team'') True,
      ReposAddCollaborator ''Owner1'' (JStr ''team'') (JStr ''alice'') ''push'',
      ReposAddCollaborator ''Owner1'' (JStr ''team'') (JStr ''BOB'') ''push'',
      ReposAddCollaborator ''Owner1'' (JStr ''team'') (JStr ''Dave'') ''push'']"
proof -
  note up = usernames_passed_to_host
    [where h = host_ok and w = "start []" and username = "''Owner1''"
       and teamName = "JStr ''team''" and C = "[''Bob'', ''carol'', ''Owner1'']"
       and D = "[''alice'', ''BOB'', ''Dave'']"]
  note cr = usernames_passed_to_host
    [where h = host_absent and w = "start []" and username = "''Owner1''"
       and teamName = "JStr ''team''" and e = "RequestError 404"
       and collaborators = "[JStr ''alice'', JStr ''BOB'', JStr ''Dave'']"]
  have l: "toLowerCase ''alice'' = ''alice''" "toLowerCase ''BOB'' = ''bob''"
    "toLowerCase ''Dave'' = ''dave''" "toLowerCase ''Bob'' = ''bob''"
    "toLowerCase ''carol'' = ''carol''" "toLowerCase ''Owner1'' = ''owner1''"
    by (simp_all add: toLowerCase_def toLowerCase_char_def char_of_eq_iff)
  have 1: "trace (snd (main_sync host_ok ''Owner1'' (JStr ''team'')
                 (map JStr [''alice'', ''BOB'', ''Dave'']) (start []))) =
     [ReposGet ''Owner1'' (JStr ''team''), ReposListCollaborators ''Owner1'' (JStr ''team''),
      ReposAddCollaborator ''Owner1'' (JStr ''team'') (JStr ''alice'') ''push'',
      ReposAddCollaborator ''Owner1'' (JStr ''team'') (JStr ''dave'') ''push'',
      ReposRemoveCollaborator ''Owner1'' (JStr ''team'') (JStr ''carol'')]"
    using up l by (simp add: host_ok_def start_def)
  have 2: "trace (snd (main_sync host_absent ''Owner1'' (JStr ''team'')
                    [JStr ''alice'', JStr ''BOB'', JStr ''Dave''] (start []))) =
     [ReposGet ''Owner1'' (JStr ''team''), ReposCreateForAuthenticatedUser (JStr ''team'') True,
      ReposAddCollaborator ''Owner1'' (JStr ''team'') (JStr ''alice'') ''push'',
      ReposAddCollaborator ''Owner1'' (JStr ''team'') (JStr ''BOB'') ''push'',
      ReposAddCollaborator ''Owner1'' (JStr ''team'') (JStr ''Dave'') ''push'']"
    using cr by (simp add: host_absent_def host_ok_def start_def)
  from 1 2 show ?thesis by simp
qed

section \<open>The interactive driver\<close>

lemma stdin_request: "stdin (request c w) = stdin w"
  by (simp add: request_def)

lemma stdin_console_log: "stdin (console_log m w) = stdin w"
  by (simp add: console_log_def)

lemma stdin_console_error: "stdin (console_error m w) = stdin w"
  by (simp add: console_error_def)

lemmas stdin_simps = stdin_request stdin_console_log stdin_console_error

lemma addUserToRepository_interactive_sends:
  "trace (addUserToRepository_interactive h owner repoName username w) =
     trace w @ [ReposAddCollaborator owner (JStr repoName) (JStr username) ''push'']"
  "stdin (addUserToRepository_interactive h owner repoName username w) = stdin w"
  by (simp_all add: addUserToRepository_interactive_def trace_simps stdin_simps split: sum.split)

lemma removeUserFromRepository_interactive_sends:
  "trace (removeUserFromRepository_interactive h owner repoName username w) =
     trace w @ [ReposRemoveCollaborator owner (JStr repoName) (JStr username)]"
  "stdin (removeUserFromRepository_interactive h owner repoName username w) = stdin w"
  by (simp_all add: removeUserFromRepository_interactive_def trace_simps stdin_simps
      split: sum.split)

lemma deleteRepository_sends:
  "trace (deleteRepository h owner repoName w) = trace w @ [ReposDelete owner (JStr repoName)]"
  by (simp add: deleteRepository_def trace_simps split: sum.split)

lemma collaborator_loop_result:
  assumes t: "\<And>c w. trace (act c w) = trace w @ [sent c]"
      and s: "\<And>c w. stdin (act c w) = stdin w"
  shows "fst (collaborator_loop act lines w) = ([] \<in> set lines)
       \<and> trace (snd (collaborator_loop act lines w)) =
           trace w @ map sent (takeWhile (\<lambda>l. l \<noteq> []) lines)
       \<and> stdin (snd (collaborator_loop act lines w)) = drop 1 (dropWhile (\<lambda>l. l \<noteq> []) lines)"
proof (induction lines arbitrary: w)
  case Nil
  show ?case by simp
next
  case (Cons l ls)
  show ?case
  proof (cases "l = []")
    case True
    then show ?thesis by simp
  next
    case False
    with Cons [of "act l (w\<lparr>stdin := ls\<rparr>)"] show ?thesis
      by (auto simp add: t)
  qed
qed

lemma after_loop_result:
  "fst (after_loop r) = (if fst r then Completed else Pending)"
  "trace (snd (after_loop r)) = trace (snd r)"
  "stdin (snd (after_loop r)) = stdin (snd r)"
  by (cases r; cases "fst r"; simp add: after_loop_def trace_simps stdin_simps)+

lemma interactive_main_authenticated:
  assumes "GitHubManager token = Inr ()" and "users_getAuthenticated h [] = Inr username"
  shows "interactive_main h token (actionInput # rest) =
     (let action = toLowerCase actionInput;
          w1 = \<lparr>trace = [UsersGetAuthenticated],
                console = [(Stdout, AuthenticatedAs username)], stdin = rest\<rparr>
      in if action = ''create'' then interactive_create h username w1
         else if action = ''edit'' then interactive_edit h username w1
         else (Completed, console_log ProgramCompleted (console_log InvalidOption w1)))"
  using assms
  by (simp add: interactive_main_def getAuthenticatedUsername_def start_def request_def
      console_log_def prompt_def Let_def)

text \<open>
  C7. In the delete sub-action the run sends a delete request if and only if the
  confirmation typed equals \<^verbatim>\<open>yes\<close> up to letter case; with any other confirmation the
  only request of the run is the one for the authenticated user.
\<close>

theorem delete_needs_yes:
  assumes "GitHubManager token = Inr ()"
      and "users_getAuthenticated h [] = Inr username"
      and "toLowerCase actionInput = ''edit''"
      and "toLowerCase editActionInput = ''delete''"
  shows "trace (snd (interactive_main h token
                       (actionInput # repoName # editActionInput # confirm # rest))) =
           (if same_identity confirm ''yes''
            then [UsersGetAuthenticated, ReposDelete username (JStr repoName)]
            else [UsersGetAuthenticated])
       \<and> ((\<exists>owner repo. ReposDelete owner repo \<in> set (trace (snd (interactive_main h token
                       (actionInput # repoName # editActionInput # confirm # rest)))))
            \<longleftrightarrow> same_identity confirm ''yes'')"
proof -
  have y: "toLowerCase ''yes'' = ''yes''"
    by (simp add: toLowerCase_def toLowerCase_char_def)
  show ?thesis
    using assms(3,4)
    by (simp add: interactive_main_authenticated [OF assms(1,2)] interactive_edit_def
        interactive_delete_def prompt_def Let_def same_identity_def y trace_simps
        deleteRepository_sends)
qed

theorem delete_needs_yes_witness:
  "trace (snd (interactive_main host_ok (Some ''token'') [''Edit'', ''team'', ''DELETE'', ''YeS''])) =
     [UsersGetAuthenticated, ReposDelete ''Owner1'' (JStr ''team'')]
   \<and> trace (snd (interactive_main host_ok (Some ''token'') [''Edit'', ''team'', ''DELETE'', ''y''])) =
     [UsersGetAuthenticated]"
proof -
  have t: "GitHubManager (Some ''token'') = Inr ()"
    by (simp add: GitHubManager_def)
  have u: "users_getAuthenticated host_ok [] = Inr ''Owner1''"
    by (simp add: host_ok_def)
  have e: "toLowerCase ''Edit'' = ''edit''" and d: "toLowerCase ''DELETE'' = ''delete''"
    by (simp_all add: toLowerCase_def toLowerCase_char_def char_of_eq_iff)
  have y: "same_identity ''YeS'' ''yes''" and n: "\<not> same_identity ''y'' ''yes''"
    by (simp_all add: same_identity_def toLowerCase_def toLowerCase_char_def char_of_eq_iff)
  from delete_needs_yes [OF t u e d, of "''team''" "''YeS''" "[]"]
       delete_needs_yes [OF t u e d, of "''team''" "''y''" "[]"] y n
  show ?thesis by simp
qed

text \<open>
  C8. In each of the three entry loops (create, and add and remove under edit) the run
  sends one add (or remove) request for each line before the first empty line, in
  order, and none for the empty line or for a line after it: the lines after the empty
  one are left unread on standard input. The run completes when an empty line was
  typed, and is left waiting at the prompt when the input ended without one.
\<close>

theorem collaborator_entry_loops:
  assumes "GitHubManager token = Inr ()"
      and "users_getAuthenticated h [] = Inr username"
  shows "(toLowerCase actionInput = ''create'' \<longrightarrow>
            trace (snd (interactive_main h token (actionInput # repoName # lines))) =
              [UsersGetAuthenticated, ReposCreateForAuthenticatedUser (JStr repoName) True]
              @ map (\<lambda>c. ReposAddCollaborator username (JStr repoName) (JStr c) ''push'')
                  (takeWhile (\<lambda>l. l \<noteq> []) lines)
            \<and> stdin (snd (interactive_main h token (actionInput # repoName # lines))) =
                drop 1 (dropWhile (\<lambda>l. l \<noteq> []) lines)
            \<and> fst (interactive_main h token (actionInput # repoName # lines)) =
                (if [] \<in> set lines then Completed else Pending))
       \<and> (toLowerCase actionInput = ''edit'' \<and> toLowerCase editActionInput = ''add'' \<longrightarrow>
            trace (snd (interactive_main h token
                          (actionInput # repoName # editActionInput # lines))) =
              [UsersGetAuthenticated]
              @ map (\<lambda>c. ReposAddCollaborator username (JStr repoName) (JStr c) ''push'')
                  (takeWhile (\<lambda>l. l \<noteq> []) lines)
            \<and> stdin (snd (interactive_main h token
                             (actionInput # repoName # editActionInput # lines))) =
                drop 1 (dropWhile (\<lambda>l. l \<noteq> []) lines)
            \<and> fst (interactive_main h token (actionInput # repoName # editActionInput # lines)) =
                (if [] \<in> set lines then Completed else Pending))
       \<and> (toLowerCase actionInput = ''edit'' \<and> toLowerCase editActionInput = ''remove'' \<longrightarrow>
            trace (snd (interactive_main h token
                          (actionInput # repoName # editActionInput # lines))) =
              [UsersGetAuthenticated]
              @ map (\<lambda>c. ReposRemoveCollaborator username (JStr repoName) (JStr c))
                  (takeWhile (\<lambda>l. l \<noteq> []) lines)
            \<and> stdin (snd (interactive_main h token
                             (actionInput # repoName # editActionInput # lines))) =
                drop 1 (dropWhile (\<lambda>l. l \<noteq> []) lines)
            \<and> fst (interactive_main h token (actionInput # repoName # editActionInput # lines)) =
                (if [] \<in> set lines then Completed else Pending))"
proof -
  note add_loop = collaborator_loop_result
    [where act = "addUserToRepository_interactive h username repoName"
       and sent = "\<lambda>c. ReposAddCollaborator username (JStr repoName) (JStr c) ''push''",
     OF addUserToRepository_interactive_sends]
  note remove_loop = collaborator_loop_result
    [where act = "removeUserFromRepository_interactive h username repoName"
       and sent = "\<lambda>c. ReposRemoveCollaborator username (JStr repoName) (JStr c)",
     OF removeUserFromRepository_interactive_sends]
  have create: "stdin (createRepository h (JStr repoName) True w) = stdin w" for w
    by (simp add: createRepository_def stdin_simps split: sum.split)
  show ?thesis
  proof (intro conjI impI)
    assume a: "toLowerCase actionInput = ''create''"
    let ?w = "createRepository h (JStr repoName) True
                \<lparr>trace = [UsersGetAuthenticated],
                 console = [(Stdout, AuthenticatedAs username)], stdin = lines\<rparr>"
    have m: "interactive_main h token (actionInput # repoName # lines) =
               after_loop (collaborator_loop (addUserToRepository_interactive h username repoName)
                             lines ?w)"
      using a
      by (simp add: interactive_main_authenticated [OF assms] interactive_create_def prompt_def
          Let_def create)
    show "trace (snd (interactive_main h token (actionInput # repoName # lines))) =
            [UsersGetAuthenticated, ReposCreateForAuthenticatedUser (JStr repoName) True]
            @ map (\<lambda>c. ReposAddCollaborator username (JStr repoName) (JStr c) ''push'')
                (takeWhile (\<lambda>l. l \<noteq> []) lines)"
      by (simp add: m after_loop_result add_loop trace_createRepository)
    show "stdin (snd (interactive_main h token (actionInput # repoName # lines))) =
            drop 1 (dropWhile (\<lambda>l. l \<noteq> []) lines)"
      by (simp add: m after_loop_result add_loop)
    show "fst (interactive_main h token (actionInput # repoName # lines)) =
            (if [] \<in> set lines then Completed else Pending)"
      by (simp add: m after_loop_result add_loop)
  next
    assume a: "toLowerCase actionInput = ''edit'' \<and> toLowerCase editActionInput = ''add''"
    let ?w = "\<lparr>trace = [UsersGetAuthenticated],
                console = [(Stdout, AuthenticatedAs username)], stdin = lines\<rparr>"
    have m: "interactive_main h token (actionInput # repoName # editActionInput # lines) =
               after_loop (collaborator_loop (addUserToRepository_interactive h username repoName)
                             lines ?w)"
      using a
      by (simp add: interactive_main_authenticated [OF assms] interactive_edit_def prompt_def
          Let_def)
    show "trace (snd (interactive_main h token
                        (actionInput # repoName # editActionInput # lines))) =
            [UsersGetAuthenticated]
            @ map (\<lambda>c. ReposAddCollaborator username (JStr repoName) (JStr c) ''push'')
                (takeWhile (\<lambda>l. l \<noteq> []) lines)"
      by (simp add: m after_loop_result add_loop)
    show "stdin (snd (interactive_main h token
                        (actionInput # repoName # editActionInput # lines))) =
            drop 1 (dropWhile (\<lambda>l. l \<noteq> []) lines)"
      by (simp add: m after_loop_result add_loop)
    show "fst (interactive_main h token (actionInput # repoName # editActionInput # lines)) =
            (if [] \<in> set lines then Completed else Pending)"
      by (simp add: m after_loop_result add_loop)
  next
    assume a: "toLowerCase actionInput = ''edit'' \<and> toLowerCase editActionInput = ''remove''"
    let ?w = "\<lparr>trace = [UsersGetAuthenticated],
                console = [(Stdout, AuthenticatedAs username)], stdin = lines\<rparr>"
    have m: "interactive_main h token (actionInput # repoName # editActionInput # lines) =
               after_loop (collaborator_loop
                             (removeUserFromRepository_interactive h username repoName) lines ?w)"
      using a
      by (simp add: interactive_main_authenticated [OF assms] interactive_edit_def prompt_def
          Let_def)
    show "trace (snd (interactive_main h token
                        (actionInput # repoName # editActionInput # lines))) =
            [UsersGetAuthenticated]
            @ map (\<lambda>c. ReposRemoveCollaborator username (JStr repoName) (JStr c))
                (takeWhile (\<lambda>l. l \<noteq> []) lines)"
      by (simp add: m after_loop_result remove_loop)
    show "stdin (snd (interactive_main h token
                        (actionInput # repoName # editActionInput # lines))) =
            drop 1 (dropWhile (\<lambda>l. l \<noteq> []) lines)"
      by (simp add: m after_loop_result remove_loop)
    show "fst (interactive_main h token (actionInput # repoName # editActionInput # lines)) =
            (if [] \<in> set lines then Completed else Pending)"
      by (simp add: m after_loop_result remove_loop)
  qed
qed

theorem collaborator_entry_loops_witness:
  "trace (snd (interactive_main host_ok (Some ''token'')
                 [''Create'', ''team'', ''alice'', ''BOB'', '''', ''carol''])) =
     [UsersGetAuthenticated, ReposCreateForAuthenticatedUser (JStr ''team'') True,
      ReposAddCollaborator ''Owner1'' (JStr ''team'') (JStr ''alice'') ''push'',
      ReposAddCollaborator ''Owner1'' (JStr ''team'') (JStr ''BOB'') ''push'']
   \<and> stdin (snd (interactive_main host_ok (Some ''token'')
                    [''Create'', ''team'', ''alice'', ''BOB'', '''', ''carol''])) = [''carol'']
   \<and> fst (interactive_main host_ok (Some ''token'')
             [''Create'', ''team'', ''alice'', ''BOB'', '''', ''carol'']) = Completed
   \<and> trace (snd (interactive_main host_ok (Some ''token'')
                    [''edit'', ''team'', ''ADD'', ''dave'', '''', ''erin''])) =
     [UsersGetAuthenticated,
      ReposAddCollaborator ''Owner1'' (JStr ''team'') (JStr ''dave'') ''push'']
   \<and> trace (snd (interactive_main host_ok (Some ''token'')
                    [''EDIT'', ''team'', ''Remove'', ''bob'', ''Carol''])) =
     [UsersGetAuthenticated,
      ReposRemoveCollaborator ''Owner1'' (JStr ''team'') (JStr ''bob''),
      ReposRemoveCollaborator ''Owner1'' (JStr ''team'') (JStr ''Carol'')]
   \<and> fst (interactive_main host_ok (Some ''token'')
             [''EDIT'', ''team'', ''Remove'', ''bob'', ''Carol'']) = Pending"
proof -
  have t: "GitHubManager (Some ''token'') = Inr ()"
    by (simp add: GitHubManager_def)
  have u: "users_getAuthenticated host_ok [] = Inr ''Owner1''"
    by (simp add: host_ok_def)
  have l: "toLowerCase ''Create'' = ''create''" "toLowerCase ''edit'' = ''edit''"
    "toLowerCase ''ADD'' = ''add''" "toLowerCase ''EDIT'' = ''edit''"
    "toLowerCase ''Remove'' = ''remove''"
    by (simp_all add: toLowerCase_def toLowerCase_char_def char_of_eq_iff)
  from collaborator_entry_loops
         [OF t u, where actionInput = "''Create''" and repoName = "''team''"
            and lines = "[''alice'', ''BOB'', '''', ''carol'']"]
       collaborator_entry_loops
         [OF t u, where actionInput = "''edit''" and repoName = "''team''"
            and editActionInput = "''ADD''" and lines = "[''dave'', '''', ''erin'']"]
       collaborator_entry_loops
         [OF t u, where actionInput = "''EDIT''" and repoName = "''team''"
            and editActionInput = "''Remove''" and lines = "[''bob'', ''Carol'']"]
       l
  show ?thesis by simp
qed

end
